theory Spec2Isabelle
  imports Main "HOL-Library.Word"
begin

unbundle bit_operations_syntax

section \<open>Evidence builder of the prover (prover/proof_submitter/evidence/builder.go)\<close>

text \<open>
  The file builder.go holds a \<open>Builder\<close> with two methods, \<open>ForSubmission\<close> and
  \<open>ForContest\<close>, and the helper \<open>uint16ToBytes\<close>. Everything else it touches lives in
  other packages: the RPC client, the anchor transaction validator, the proof producer's
  \<open>DegreeToCircuitsIdx\<close>, the tier constant \<open>TierSgxAndPseZkevmID\<close>, the conversion
  \<open>StringToBytes32\<close> and go-ethereum's \<open>Header.Hash\<close>. Those are taken as parameters:
  the methods of the two collaborators are fields of the records the builder holds, the
  package-level functions and the constant are fields of the record \<open>deps\<close>.

  Conventions of the embedding:
  \<^item> Go's \<open>[32]byte\<close> (\<open>common.Hash\<close> too) is a 256-bit word, byte 0 the most significant;
    the zero array is the word 0. \<open>common.Address\<close> is a 160-bit word.
  \<^item> \<open>[]byte\<close> is a list of 8-bit words, \<open>uint16\<close> and \<open>uint64\<close> are words of that width,
    \<open>*big.Int\<close> is \<open>int\<close>.
  \<^item> A Go result \<open>(*T, error)\<close> of this file is a pair of options, \<open>None\<close> for \<open>nil\<close>, so
    that returning both or neither is expressible. A collaborator's \<open>(T, error)\<close> is a sum,
    \<open>Inl\<close> its error: the source reads the value only after \<open>err != nil\<close> has failed.
  \<^item> Pointer arguments are taken non-nil (they are values here); \<open>context.Context\<close> and
    the call to \<open>log.Info\<close> are left out: a cancelled context shows as a collaborator's
    error, and logging does not reach the result.
  \<^item> Both methods only read their receiver, so the builder is an argument and no
    builder is returned.
\<close>

subsection \<open>Data of the other packages, as far as builder.go reads it\<close>

type_synonym bytes = "8 word list"
type_synonym bytes32 = "256 word"
type_synonym hash = "256 word"
type_synonym address = "160 word"

text \<open>The message of an error value that a collaborator returned.\<close>
type_synonym collab_error = string

text \<open>go-ethereum's \<open>types.Header\<close>: builder.go reads \<open>ParentHash\<close> (for the log) and calls
  \<open>Hash()\<close>; the other fields are kept as the header's encoding.\<close>
record Header =
  ParentHash :: hash
  header_rest :: bytes

text \<open>go-ethereum's \<open>types.Transaction\<close> and \<open>types.Receipt\<close> are handed on unread: they are
  their encodings.\<close>
type_synonym Transaction = bytes
type_synonym Receipt = bytes

record Block =
  block_header :: Header
  Transactions :: "Transaction list"

text \<open>\<open>proofProducer.ProofRequestOptions\<close>, the four hashes that builder.go copies.\<close>
record ProofRequestOptions =
  MetaHash :: hash
  ParentHash :: hash
  BlockHash :: hash
  SignalRoot :: hash

text \<open>\<open>proofProducer.ProofWithHeader\<close>.\<close>
record ProofWithHeader =
  BlockID :: int
  Header :: Header
  Proof :: bytes
  Degree :: "64 word"
  Opts :: ProofRequestOptions
  Tier :: "16 word"

text \<open>\<open>bindings.TaikoL1ClientTransitionProved\<close>, the event of a proved transition.\<close>
record TaikoL1ClientTransitionProved =
  BlockId :: int
  ParentHash :: hash
  BlockHash :: hash
  SignalRoot :: hash
  Prover :: address
  ValidityBond :: int
  Tier :: "16 word"

text \<open>What \<open>TaikoL1.GetBlock\<close> returns; builder.go reads \<open>MetaHash\<close>.\<close>
record TaikoDataBlock =
  MetaHash :: bytes32
  block_rest :: bytes

text \<open>\<open>rpc.Client\<close>: \<open>L2.BlockByHash\<close>, \<open>GetStorageRoot\<close> (the \<open>L2GethClient\<close> it is handed is
  a field of the same client and is folded into the function) and \<open>TaikoL1.GetBlock\<close>.\<close>
record EthClient =
  BlockByHash :: "hash \<Rightarrow> collab_error + Block"

record TaikoL1Client =
  GetBlock :: "64 word \<Rightarrow> collab_error + TaikoDataBlock"

record Client =
  L2 :: EthClient
  TaikoL1 :: TaikoL1Client
  GetStorageRoot :: "address \<Rightarrow> int \<Rightarrow> collab_error + hash"

text \<open>\<open>anchorTxValidator.AnchorTxValidator\<close>: \<open>ValidateAnchorTx\<close> returns an error or
  \<open>nil\<close>, \<open>GetAndValidateAnchorTxReceipt\<close> a receipt or an error.\<close>
record AnchorTxValidator =
  ValidateAnchorTx :: "Transaction \<Rightarrow> collab_error option"
  GetAndValidateAnchorTxReceipt :: "Transaction \<Rightarrow> collab_error + Receipt"

text \<open>The package-level names builder.go uses: \<open>header.Hash()\<close>, \<open>rpc.StringToBytes32\<close>,
  \<open>proofProducer.DegreeToCircuitsIdx\<close> and \<open>encoding.TierSgxAndPseZkevmID\<close>.\<close>
record deps =
  Hash :: "Header \<Rightarrow> hash"
  StringToBytes32 :: "string \<Rightarrow> bytes32"
  DegreeToCircuitsIdx :: "64 word \<Rightarrow> collab_error + 16 word"
  TierSgxAndPseZkevmID :: "16 word"

text \<open>\<open>(*big.Int).Uint64()\<close> of the Go library: the low 64 bits of the magnitude (the
  library calls the result undefined when the value does not fit).\<close>
definition Uint64 :: "int \<Rightarrow> 64 word" where
  "Uint64 x = word_of_int \<bar>x\<bar>"

subsection \<open>builder.go\<close>

text \<open>\<open>encoding.BlockEvidence\<close>, the output.\<close>
record BlockEvidence =
  MetaHash :: bytes32
  ParentHash :: bytes32
  BlockHash :: bytes32
  SignalRoot :: bytes32
  Graffiti :: bytes32
  Tier :: "16 word"
  Proof :: bytes

text \<open>The errors the two methods return, one constructor for each \<open>return nil, ...\<close> of
  the source: four wrap the collaborator's error in a message, two hand it on as it is.
  In the order below, the specification calls them NotFoundError, MalformedBlockError,
  InvalidAnchorError, InvalidAnchorReceiptError, UnsupportedDegreeError,
  StorageRootUnavailableError and MetadataUnavailableError.\<close>
datatype error =
    FailedToGetL2Block hash collab_error
      \<comment> \<open>"failed to get L2 block with given hash %s: %w"\<close>
  | InvalidBlockWithoutAnchor int
      \<comment> \<open>"invalid block without anchor transaction, blockID %s"\<close>
  | InvalidAnchorTransaction collab_error
      \<comment> \<open>"invalid anchor transaction: %w"\<close>
  | FailedToFetchAnchorReceipt collab_error
      \<comment> \<open>"failed to fetch anchor transaction receipt: %w"\<close>
  | DegreeToCircuitsIdxError collab_error
      \<comment> \<open>the error of \<open>DegreeToCircuitsIdx\<close>, unwrapped\<close>
  | FailedToGetStorageRoot collab_error
      \<comment> \<open>"failed to get L2 signal service storage root: %w"\<close>
  | GetBlockError collab_error
      \<comment> \<open>the error of \<open>TaikoL1.GetBlock\<close>, unwrapped\<close>

record Builder =
  rpc :: Client
  anchorTxValidator :: AnchorTxValidator
  graffiti :: bytes32

definition NewBuilder :: "deps \<Rightarrow> Client \<Rightarrow> AnchorTxValidator \<Rightarrow> string \<Rightarrow> Builder" where
  "NewBuilder d cli validator graffiti_str =
     \<lparr> rpc = cli,
       anchorTxValidator = validator,
       graffiti = StringToBytes32 d graffiti_str \<rparr>"

text \<open>\<open>binary.BigEndian.PutUint16(b, i)\<close> on a fresh two-byte slice: \<open>b[0] = byte(i >> 8)\<close>,
  \<open>b[1] = byte(i)\<close>.\<close>
definition uint16ToBytes :: "16 word \<Rightarrow> bytes" where
  "uint16ToBytes i = [ucast (drop_bit 8 i), ucast i]"

definition ForSubmission ::
  "deps \<Rightarrow> Builder \<Rightarrow> ProofWithHeader \<Rightarrow> BlockEvidence option \<times> error option" where
  "ForSubmission d b proofWithHeader =
     (let blockID = BlockID proofWithHeader;
          header = Header proofWithHeader;
          proof = ProofWithHeader.Proof proofWithHeader
      in case BlockByHash (L2 (rpc b)) (Hash d header) of
           Inl err \<Rightarrow> (None, Some (FailedToGetL2Block (Hash d header) err))
         | Inr block \<Rightarrow>
             if length (Transactions block) = 0
             then (None, Some (InvalidBlockWithoutAnchor blockID))
             else
               let anchorTx = Transactions block ! 0
               in (case ValidateAnchorTx (anchorTxValidator b) anchorTx of
                    Some err \<Rightarrow> (None, Some (InvalidAnchorTransaction err))
                  | None \<Rightarrow>
                      (case GetAndValidateAnchorTxReceipt (anchorTxValidator b) anchorTx of
                         Inl err \<Rightarrow> (None, Some (FailedToFetchAnchorReceipt err))
                       | Inr _ \<Rightarrow>
                           let evidence =
                                 \<lparr> MetaHash = ProofRequestOptions.MetaHash (Opts proofWithHeader),
                                   ParentHash = ProofRequestOptions.ParentHash (Opts proofWithHeader),
                                   BlockHash = ProofRequestOptions.BlockHash (Opts proofWithHeader),
                                   SignalRoot = ProofRequestOptions.SignalRoot (Opts proofWithHeader),
                                   Graffiti = graffiti b,
                                   Tier = ProofWithHeader.Tier proofWithHeader,
                                   Proof = proof \<rparr>
                           in if ProofWithHeader.Tier proofWithHeader = TierSgxAndPseZkevmID d
                              then
                                (case DegreeToCircuitsIdx d (Degree proofWithHeader) of
                                   Inl err \<Rightarrow> (None, Some (DegreeToCircuitsIdxError err))
                                 | Inr circuitsIdx \<Rightarrow>
                                     (Some (evidence\<lparr> Proof := uint16ToBytes circuitsIdx @ Proof evidence \<rparr>),
                                      None))
                              else (Some evidence, None))))"

text \<open>The literal of \<open>ForContest\<close> names no \<open>Graffiti\<close>: the field has Go's zero value.\<close>
definition ForContest ::
  "deps \<Rightarrow> Builder \<Rightarrow> Header \<Rightarrow> address \<Rightarrow> TaikoL1ClientTransitionProved
     \<Rightarrow> BlockEvidence option \<times> error option" where
  "ForContest d b header l2SignalService event =
     (case GetStorageRoot (rpc b) l2SignalService (BlockId event) of
        Inl err \<Rightarrow> (None, Some (FailedToGetStorageRoot err))
      | Inr signalRoot \<Rightarrow>
          (case GetBlock (TaikoL1 (rpc b)) (Uint64 (BlockId event)) of
             Inl err \<Rightarrow> (None, Some (GetBlockError err))
           | Inr blockInfo \<Rightarrow>
               (Some \<lparr> MetaHash = TaikoDataBlock.MetaHash blockInfo,
                       ParentHash = TaikoL1ClientTransitionProved.ParentHash event,
                       BlockHash = Hash d header,
                       SignalRoot = signalRoot,
                       Graffiti = 0,
                       Tier = TaikoL1ClientTransitionProved.Tier event,
                       Proof = [] \<rparr>,
                None)))"

subsection \<open>The byte layout in the words of the specification\<close>

text \<open>The specification's \<open>bigEndian16\<close>: the two-byte big-endian encoding of a number
  below \<open>2^16\<close> is its quotient by 256 followed by its remainder. It is compared with
  \<open>uint16ToBytes\<close> below.\<close>
definition bigEndian16 :: "nat \<Rightarrow> bytes" where
  "bigEndian16 n = [word_of_nat (n div 256), word_of_nat (n mod 256)]"

subsection \<open>Sample collaborators and inputs\<close>

text \<open>
  Concrete stand-ins for the parameters, on which the theorems below are instantiated.
  The header hash is a stand-in (twice the parent hash plus one), the degree mapping
  knows degree 18 only (circuit 3), the dual tier is 400, and the graffiti conversion packs
  the first 32 characters, padded with zero bytes on the right. The chain has block 42 with an anchor
  transaction \<open>[0xA1]\<close> under the hash \<open>0x23\<close>.
\<close>

definition example_StringToBytes32 :: "string \<Rightarrow> bytes32" where
  "example_StringToBytes32 s =
     (let bs = take 32 s
      in foldl (\<lambda>acc c. acc * 256 + of_char c) 0 bs * 256 ^ (32 - length bs))"

definition example_deps :: deps where
  "example_deps =
     \<lparr> Hash = (\<lambda>h. 2 * Header.ParentHash h + 1),
       StringToBytes32 = example_StringToBytes32,
       DegreeToCircuitsIdx = (\<lambda>degree. if degree = 18 then Inr 3 else Inl ''invalid degree''),
       TierSgxAndPseZkevmID = 400 \<rparr>"

definition example_header :: Header where
  "example_header = \<lparr> Header.ParentHash = 0x11, header_rest = [0x01] \<rparr>"

definition example_block :: Block where
  "example_block = \<lparr> block_header = example_header, Transactions = [[0xA1], [0x02]] \<rparr>"

definition example_client :: Client where
  "example_client =
     \<lparr> L2 = \<lparr> BlockByHash = (\<lambda>h. if h = 0x23 then Inr example_block else Inl ''not found'') \<rparr>,
       TaikoL1 = \<lparr> GetBlock =
                    (\<lambda>i. if i = 42 then Inr \<lparr> TaikoDataBlock.MetaHash = 0x4D, block_rest = [] \<rparr>
                         else Inl ''block not proposed'') \<rparr>,
       GetStorageRoot = (\<lambda>a n. if n = 42 then Inr 0x52 else Inl ''missing trie node'') \<rparr>"

text \<open>The same chain, with no transaction in the block.\<close>
definition example_client_empty :: Client where
  "example_client_empty =
     example_client
       \<lparr> L2 := \<lparr> BlockByHash =
                    (\<lambda>h. if h = 0x23 then Inr \<lparr> block_header = example_header, Transactions = [] \<rparr>
                         else Inl ''not found'') \<rparr> \<rparr>"

definition example_validator :: AnchorTxValidator where
  "example_validator =
     \<lparr> ValidateAnchorTx = (\<lambda>tx. if tx = [0xA1] then None else Some ''invalid anchor''),
       GetAndValidateAnchorTxReceipt =
         (\<lambda>tx. if tx = [0xA1] then Inr [0x01] else Inl ''receipt not found'') \<rparr>"

definition example_builder :: Builder where
  "example_builder = NewBuilder example_deps example_client example_validator ''taiko''"

definition example_builder_empty :: Builder where
  "example_builder_empty =
     NewBuilder example_deps example_client_empty example_validator ''taiko''"

text \<open>A proof of the dual tier at degree 18. The \<open>BlockHash\<close> of the options differs
  from the hash of the header on purpose.\<close>
definition example_proof :: ProofWithHeader where
  "example_proof =
     \<lparr> BlockID = 42,
       Header = example_header,
       ProofWithHeader.Proof = [0xAA, 0xBB],
       Degree = 18,
       Opts = \<lparr> ProofRequestOptions.MetaHash = 0x4D,
                ProofRequestOptions.ParentHash = 0x11,
                ProofRequestOptions.BlockHash = 0x99,
                ProofRequestOptions.SignalRoot = 0x52 \<rparr>,
       ProofWithHeader.Tier = 400 \<rparr>"

text \<open>The same proof at tier 200, and at a degree with no circuit.\<close>
definition example_proof_sgx :: ProofWithHeader where
  "example_proof_sgx = example_proof \<lparr> Degree := 99, ProofWithHeader.Tier := 200 \<rparr>"

definition example_proof_unmapped :: ProofWithHeader where
  "example_proof_unmapped = example_proof \<lparr> Degree := 7 \<rparr>"

definition example_graffiti :: bytes32 where
  "example_graffiti = 0x7461696B6F000000000000000000000000000000000000000000000000000000"

definition example_evidence :: BlockEvidence where
  "example_evidence =
     \<lparr> MetaHash = 0x4D, ParentHash = 0x11, BlockHash = 0x99, SignalRoot = 0x52,
       Graffiti = example_graffiti, Tier = 400, Proof = [0x00, 0x03, 0xAA, 0xBB] \<rparr>"

definition example_evidence_sgx :: BlockEvidence where
  "example_evidence_sgx = example_evidence \<lparr> Tier := 200, Proof := [0xAA, 0xBB] \<rparr>"

text \<open>The event of the contest example: parent hash \<open>0x48\<close>, tier 2, block 42.\<close>
definition example_event :: TaikoL1ClientTransitionProved where
  "example_event =
     \<lparr> BlockId = 42,
       TaikoL1ClientTransitionProved.ParentHash = 0x48,
       TaikoL1ClientTransitionProved.BlockHash = 0x23,
       TaikoL1ClientTransitionProved.SignalRoot = 0x51,
       Prover = 0xFEED,
       ValidityBond = 1000,
       TaikoL1ClientTransitionProved.Tier = 2 \<rparr>"

definition example_contest_evidence :: BlockEvidence where
  "example_contest_evidence =
     \<lparr> MetaHash = 0x4D, ParentHash = 0x48, BlockHash = 0x23, SignalRoot = 0x52,
       Graffiti = 0, Tier = 2, Proof = [] \<rparr>"

text \<open>An event whose block identifier, \<open>2^64 + 42\<close>, is beyond \<open>uint64\<close>, on a chain
  whose signal service answers at that number.\<close>
definition example_event_far :: TaikoL1ClientTransitionProved where
  "example_event_far = example_event \<lparr> BlockId := 18446744073709551658 \<rparr>"

definition example_builder_far :: Builder where
  "example_builder_far =
     NewBuilder example_deps
       (example_client \<lparr> GetStorageRoot :=
          (\<lambda>a n. if n = 18446744073709551658 then Inr 0x52 else Inl ''missing trie node'') \<rparr>)
       example_validator ''taiko''"

lemmas example_defs =
  example_deps_def example_header_def example_block_def example_client_def
  example_client_empty_def example_validator_def example_builder_def
  example_builder_empty_def example_proof_def example_proof_sgx_def
  example_proof_unmapped_def example_evidence_def example_evidence_sgx_def
  example_event_def example_contest_evidence_def example_graffiti_def
  example_StringToBytes32_def NewBuilder_def

section \<open>Properties\<close>

subsection \<open>The helper \<open>uint16ToBytes\<close>\<close>

lemma uint16ToBytes_bigEndian16: "uint16ToBytes i = bigEndian16 (unat i)"
proof -
  have hi: "(ucast (drop_bit 8 i) :: 8 word) = word_of_nat (unat i div 256)"
    by (rule word_unat_eq_iff [THEN iffD2])
       (simp add: unsigned_ucast_eq unat_div drop_bit_eq_div unat_of_nat take_bit_eq_mod)
  have lo: "(ucast i :: 8 word) = word_of_nat (unat i mod 256)"
    by (rule word_unat_eq_iff [THEN iffD2])
       (simp add: unsigned_ucast_eq unat_of_nat take_bit_eq_mod)
  show ?thesis
    unfolding uint16ToBytes_def bigEndian16_def using hi lo by simp
qed

lemma length_uint16ToBytes: "length (uint16ToBytes i) = 2"
  by (simp add: uint16ToBytes_def)

text \<open>Reading the two bytes back, high byte first, gives the number.\<close>
lemma uint16ToBytes_decode:
  "unat (uint16ToBytes i ! 0) * 256 + unat (uint16ToBytes i ! 1) = unat i"
proof -
  have "unat i < 2 ^ 16"
    using unsigned_less [of i] by simp
  then have "unat i div 256 < 256"
    by simp
  then show ?thesis
    by (simp add: uint16ToBytes_def unsigned_ucast_eq unat_div drop_bit_eq_div take_bit_eq_mod)
qed

text \<open>Within the range of \<open>uint64\<close> the conversion of a block identifier loses nothing.\<close>
lemma Uint64_in_range: "0 \<le> x \<Longrightarrow> x < 2 ^ 64 \<Longrightarrow> uint (Uint64 x) = x"
  by (simp add: Uint64_def uint_word_of_int take_bit_eq_mod)

subsection \<open>What a returned evidence looks like\<close>

lemma ForSubmission_fields:
  assumes "ForSubmission d b p = (Some ev, err)"
  shows "MetaHash ev = ProofRequestOptions.MetaHash (Opts p)"
    and "ParentHash ev = ProofRequestOptions.ParentHash (Opts p)"
    and "BlockHash ev = ProofRequestOptions.BlockHash (Opts p)"
    and "SignalRoot ev = ProofRequestOptions.SignalRoot (Opts p)"
    and "Graffiti ev = graffiti b"
    and "Tier ev = ProofWithHeader.Tier p"
    and "err = None"
  using assms
  by (auto simp: ForSubmission_def Let_def split: sum.splits option.splits if_splits)

lemma ForSubmission_proof_dual:
  assumes "ForSubmission d b p = (Some ev, err)"
    and "ProofWithHeader.Tier p = TierSgxAndPseZkevmID d"
  shows "\<exists>idx. DegreeToCircuitsIdx d (Degree p) = Inr idx
           \<and> Proof ev = uint16ToBytes idx @ ProofWithHeader.Proof p"
  using assms
  by (auto simp: ForSubmission_def Let_def split: sum.splits option.splits if_splits)

lemma ForSubmission_proof_other:
  assumes "ForSubmission d b p = (Some ev, err)"
    and "ProofWithHeader.Tier p \<noteq> TierSgxAndPseZkevmID d"
  shows "Proof ev = ProofWithHeader.Proof p"
  using assms
  by (auto simp: ForSubmission_def Let_def split: sum.splits option.splits if_splits)

text \<open>Once the block is there, is not empty and its anchor transaction has passed both
  checks, only the tier and the degree decide.\<close>
lemma ForSubmission_validated:
  assumes "BlockByHash (L2 (rpc b)) (Hash d (Header p)) = Inr block"
    and "length (Transactions block) \<noteq> 0"
    and "ValidateAnchorTx (anchorTxValidator b) (Transactions block ! 0) = None"
    and "GetAndValidateAnchorTxReceipt (anchorTxValidator b) (Transactions block ! 0) = Inr receipt"
  shows "ForSubmission d b p =
           (if ProofWithHeader.Tier p = TierSgxAndPseZkevmID d
            then (case DegreeToCircuitsIdx d (Degree p) of
                    Inl err \<Rightarrow> (None, Some (DegreeToCircuitsIdxError err))
                  | Inr idx \<Rightarrow>
                      (Some \<lparr> MetaHash = ProofRequestOptions.MetaHash (Opts p),
                               ParentHash = ProofRequestOptions.ParentHash (Opts p),
                               BlockHash = ProofRequestOptions.BlockHash (Opts p),
                               SignalRoot = ProofRequestOptions.SignalRoot (Opts p),
                               Graffiti = graffiti b,
                               Tier = ProofWithHeader.Tier p,
                               Proof = uint16ToBytes idx @ ProofWithHeader.Proof p \<rparr>, None))
            else (Some \<lparr> MetaHash = ProofRequestOptions.MetaHash (Opts p),
                          ParentHash = ProofRequestOptions.ParentHash (Opts p),
                          BlockHash = ProofRequestOptions.BlockHash (Opts p),
                          SignalRoot = ProofRequestOptions.SignalRoot (Opts p),
                          Graffiti = graffiti b,
                          Tier = ProofWithHeader.Tier p,
                          Proof = ProofWithHeader.Proof p \<rparr>, None))"
  using assms
  by (simp add: ForSubmission_def Let_def split: sum.splits)

lemma ForContest_Some:
  assumes "ForContest d b header a event = (Some ev, err)"
  shows "\<exists>root info. GetStorageRoot (rpc b) a (BlockId event) = Inr root
           \<and> GetBlock (TaikoL1 (rpc b)) (Uint64 (BlockId event)) = Inr info
           \<and> ev = \<lparr> MetaHash = TaikoDataBlock.MetaHash info,
                    ParentHash = TaikoL1ClientTransitionProved.ParentHash event,
                    BlockHash = Hash d header,
                    SignalRoot = root,
                    Graffiti = 0,
                    Tier = TaikoL1ClientTransitionProved.Tier event,
                    Proof = [] \<rparr>
           \<and> err = None"
  using assms
  by (auto simp: ForContest_def split: sum.splits)

subsection \<open>The sample runs\<close>

lemma example_run_dual:
  "ForSubmission example_deps example_builder example_proof = (Some example_evidence, None)"
  by (simp add: ForSubmission_def uint16ToBytes_def example_defs)

lemma example_run_sgx:
  "ForSubmission example_deps example_builder example_proof_sgx
     = (Some example_evidence_sgx, None)"
  by (simp add: ForSubmission_def uint16ToBytes_def example_defs)

lemma example_run_unmapped:
  "ForSubmission example_deps example_builder example_proof_unmapped
     = (None, Some (DegreeToCircuitsIdxError ''invalid degree''))"
  by (simp add: ForSubmission_def uint16ToBytes_def example_defs)

lemma example_run_empty:
  "ForSubmission example_deps example_builder_empty example_proof_unmapped
     = (None, Some (InvalidBlockWithoutAnchor 42))"
  by (simp add: ForSubmission_def uint16ToBytes_def example_defs)

lemma example_run_contest:
  "ForContest example_deps example_builder example_header 0x1001 example_event
     = (Some example_contest_evidence, None)"
  by (simp add: ForContest_def Uint64_def example_defs)

subsection \<open>Submission: the layout of the proof bytes\<close>

text \<open>
  Claim C1. Whenever \<open>ForSubmission\<close> returns evidence: if the tier of the input is the
  dual tier \<open>TierSgxAndPseZkevmID\<close>, the degree has a circuit index and \<open>Proof\<close> is the
  two-byte big-endian encoding of that index followed by the raw proof bytes; for any
  other tier \<open>Proof\<close> is the raw proof bytes, unchanged.
\<close>
theorem C1_proof_layout:
  assumes "ForSubmission d b p = (Some ev, err)"
  shows "if ProofWithHeader.Tier p = TierSgxAndPseZkevmID d
         then \<exists>idx. DegreeToCircuitsIdx d (Degree p) = Inr idx
                \<and> Proof ev = bigEndian16 (unat idx) @ ProofWithHeader.Proof p
         else Proof ev = ProofWithHeader.Proof p"
proof (cases "ProofWithHeader.Tier p = TierSgxAndPseZkevmID d")
  case True
  from ForSubmission_proof_dual [OF assms True]
  obtain idx where "DegreeToCircuitsIdx d (Degree p) = Inr idx"
    and "Proof ev = uint16ToBytes idx @ ProofWithHeader.Proof p"
    by blast
  then show ?thesis
    using True by (simp add: uint16ToBytes_bigEndian16)
next
  case False
  with ForSubmission_proof_other [OF assms] show ?thesis
    by simp
qed

text \<open>The two examples of the specification: tier 400 at degree 18 (circuit 3) turns the
  proof \<open>AABB\<close> into \<open>0003AABB\<close>, tier 200 leaves it as it is.\<close>
theorem C1_proof_layout_witness:
  "ForSubmission example_deps example_builder example_proof = (Some example_evidence, None)
   \<and> Proof example_evidence = [0x00, 0x03, 0xAA, 0xBB]
   \<and> ForSubmission example_deps example_builder example_proof_sgx
        = (Some example_evidence_sgx, None)
   \<and> Proof example_evidence_sgx = [0xAA, 0xBB]"
proof -
  note dual = C1_proof_layout [OF example_run_dual]
  note sgx = C1_proof_layout [OF example_run_sgx]
  have "Proof example_evidence = [0x00, 0x03, 0xAA, 0xBB]"
    using dual by (simp add: example_defs bigEndian16_def)
  moreover have "Proof example_evidence_sgx = [0xAA, 0xBB]"
    using sgx by (simp add: example_defs)
  ultimately show ?thesis
    using example_run_dual example_run_sgx by simp
qed

subsection \<open>Submission: a block without transactions\<close>

text \<open>
  Claim C3. If the block of the header's hash can be fetched and has no transaction,
  \<open>ForSubmission\<close> returns no evidence and the error "invalid block without anchor
  transaction" for the block identifier of the input (the specification's
  MalformedBlockError), whatever the tier, the proof bytes, the degree and the options.
\<close>
theorem C3_empty_block:
  assumes "BlockByHash (L2 (rpc b)) (Hash d (Header p)) = Inr block"
    and "length (Transactions block) = 0"
  shows "ForSubmission d b p = (None, Some (InvalidBlockWithoutAnchor (BlockID p)))"
  using assms by (simp add: ForSubmission_def)

theorem C3_empty_block_witness:
  "BlockByHash (L2 (rpc example_builder_empty)) (Hash example_deps (Header example_proof))
     = Inr \<lparr> block_header = example_header, Transactions = [] \<rparr>
   \<and> ForSubmission example_deps example_builder_empty example_proof
       = (None, Some (InvalidBlockWithoutAnchor 42))"
proof -
  have fetched:
    "BlockByHash (L2 (rpc example_builder_empty)) (Hash example_deps (Header example_proof))
       = Inr \<lparr> block_header = example_header, Transactions = [] \<rparr>"
    by (simp add: example_defs)
  have "ForSubmission example_deps example_builder_empty example_proof
          = (None, Some (InvalidBlockWithoutAnchor (BlockID example_proof)))"
    by (rule C3_empty_block [OF fetched]) simp
  then show ?thesis
    using fetched by (simp add: example_proof_def)
qed

subsection \<open>Submission: a degree without circuit\<close>

text \<open>
  Claim C2, as stated: for every input of the dual tier whose degree has no circuit,
  \<open>ForSubmission\<close> returns the error of the degree mapping. It fails where an earlier
  step of \<open>ForSubmission\<close> already returns: here the block has no transaction, and the
  error is the one of the empty block; the mapping is not asked.
\<close>
theorem C2_counterexample:
  "ProofWithHeader.Tier example_proof_unmapped = TierSgxAndPseZkevmID example_deps
   \<and> DegreeToCircuitsIdx example_deps (Degree example_proof_unmapped) = Inl ''invalid degree''
   \<and> ForSubmission example_deps example_builder_empty example_proof_unmapped
       = (None, Some (InvalidBlockWithoutAnchor 42))
   \<and> ForSubmission example_deps example_builder_empty example_proof_unmapped
       \<noteq> (None, Some (DegreeToCircuitsIdxError ''invalid degree''))"
proof -
  have "ProofWithHeader.Tier example_proof_unmapped = TierSgxAndPseZkevmID example_deps"
    by (simp add: example_defs)
  moreover
  have "DegreeToCircuitsIdx example_deps (Degree example_proof_unmapped) = Inl ''invalid degree''"
    by (simp add: example_defs)
  ultimately show ?thesis
    by (simp add: example_run_empty)
qed

text \<open>
  Claim C2, amended. For every input of the dual tier whose degree has no circuit,
  \<open>ForSubmission\<close> returns an error and no evidence; and when the block is fetched, is
  not empty and its anchor transaction passes both validations, that error is the error
  of the degree mapping itself, not wrapped.
\<close>
theorem C2_unmapped_degree:
  assumes "ProofWithHeader.Tier p = TierSgxAndPseZkevmID d"
    and "DegreeToCircuitsIdx d (Degree p) = Inl e"
  shows "(\<exists>x. ForSubmission d b p = (None, Some x))
       \<and> (\<forall>block receipt.
            BlockByHash (L2 (rpc b)) (Hash d (Header p)) = Inr block
            \<longrightarrow> length (Transactions block) \<noteq> 0
            \<longrightarrow> ValidateAnchorTx (anchorTxValidator b) (Transactions block ! 0) = None
            \<longrightarrow> GetAndValidateAnchorTxReceipt (anchorTxValidator b) (Transactions block ! 0)
                  = Inr receipt
            \<longrightarrow> ForSubmission d b p = (None, Some (DegreeToCircuitsIdxError e)))"
proof (intro conjI allI impI)
  show "\<exists>x. ForSubmission d b p = (None, Some x)"
    using assms
    by (auto simp: ForSubmission_def Let_def split: sum.splits option.splits)
next
  fix block receipt
  assume "BlockByHash (L2 (rpc b)) (Hash d (Header p)) = Inr block"
    and "length (Transactions block) \<noteq> 0"
    and "ValidateAnchorTx (anchorTxValidator b) (Transactions block ! 0) = None"
    and "GetAndValidateAnchorTxReceipt (anchorTxValidator b) (Transactions block ! 0)
           = Inr receipt"
  from ForSubmission_validated [OF this]
  show "ForSubmission d b p = (None, Some (DegreeToCircuitsIdxError e))"
    using assms by simp
qed

theorem C2_unmapped_degree_witness:
  "ProofWithHeader.Tier example_proof_unmapped = TierSgxAndPseZkevmID example_deps
   \<and> DegreeToCircuitsIdx example_deps (Degree example_proof_unmapped) = Inl ''invalid degree''
   \<and> BlockByHash (L2 (rpc example_builder)) (Hash example_deps (Header example_proof_unmapped))
       = Inr example_block
   \<and> ForSubmission example_deps example_builder example_proof_unmapped
       = (None, Some (DegreeToCircuitsIdxError ''invalid degree''))"
proof -
  have tier: "ProofWithHeader.Tier example_proof_unmapped = TierSgxAndPseZkevmID example_deps"
    by (simp add: example_defs)
  have degree:
    "DegreeToCircuitsIdx example_deps (Degree example_proof_unmapped) = Inl ''invalid degree''"
    by (simp add: example_defs)
  have fetched:
    "BlockByHash (L2 (rpc example_builder)) (Hash example_deps (Header example_proof_unmapped))
       = Inr example_block"
    by (simp add: example_defs)
  have anchor:
    "length (Transactions example_block) \<noteq> 0"
    "ValidateAnchorTx (anchorTxValidator example_builder) (Transactions example_block ! 0) = None"
    "GetAndValidateAnchorTxReceipt (anchorTxValidator example_builder)
       (Transactions example_block ! 0) = Inr [0x01]"
    by (simp_all add: example_defs)
  from C2_unmapped_degree [OF tier degree, of example_builder]
  have "ForSubmission example_deps example_builder example_proof_unmapped
          = (None, Some (DegreeToCircuitsIdxError ''invalid degree''))"
    using fetched anchor by blast
  then show ?thesis
    using tier degree fetched by simp
qed

subsection \<open>Submission: the four hashes\<close>

text \<open>
  Claim C4. If the block is fetched, is not empty and its anchor transaction passes the
  structural validation and the validation of its receipt, then the evidence that
  \<open>ForSubmission\<close> returns has \<open>MetaHash\<close>, \<open>ParentHash\<close>, \<open>BlockHash\<close> and \<open>SignalRoot\<close>
  equal to those of the options of the input, whatever the fetched block holds. Evidence
  is returned in every such case but one: the dual tier with a degree that has no circuit.
\<close>
theorem C4_option_hashes:
  assumes "BlockByHash (L2 (rpc b)) (Hash d (Header p)) = Inr block"
    and "length (Transactions block) \<noteq> 0"
    and "ValidateAnchorTx (anchorTxValidator b) (Transactions block ! 0) = None"
    and "GetAndValidateAnchorTxReceipt (anchorTxValidator b) (Transactions block ! 0) = Inr receipt"
  shows "(\<exists>ev. ForSubmission d b p = (Some ev, None)
            \<and> MetaHash ev = ProofRequestOptions.MetaHash (Opts p)
            \<and> ParentHash ev = ProofRequestOptions.ParentHash (Opts p)
            \<and> BlockHash ev = ProofRequestOptions.BlockHash (Opts p)
            \<and> SignalRoot ev = ProofRequestOptions.SignalRoot (Opts p))
       \<or> (ProofWithHeader.Tier p = TierSgxAndPseZkevmID d
            \<and> (\<exists>e. DegreeToCircuitsIdx d (Degree p) = Inl e
                  \<and> ForSubmission d b p = (None, Some (DegreeToCircuitsIdxError e))))"
proof -
  note run = ForSubmission_validated [OF assms]
  show ?thesis
  proof (cases "ProofWithHeader.Tier p = TierSgxAndPseZkevmID d")
    case False
    with run show ?thesis by simp
  next
    case True
    show ?thesis
    proof (cases "DegreeToCircuitsIdx d (Degree p)")
      case (Inl e)
      with run True show ?thesis by simp
    next
      case (Inr idx)
      with run True show ?thesis by simp
    qed
  qed
qed

text \<open>In the sample run the header hashes to \<open>0x23\<close>, and the evidence carries the
  \<open>BlockHash\<close> \<open>0x99\<close> of the options.\<close>
theorem C4_option_hashes_witness:
  "BlockByHash (L2 (rpc example_builder)) (Hash example_deps (Header example_proof))
     = Inr example_block
   \<and> Hash example_deps (Header example_proof) = 0x23
   \<and> ForSubmission example_deps example_builder example_proof = (Some example_evidence, None)
   \<and> MetaHash example_evidence = 0x4D \<and> ParentHash example_evidence = 0x11
   \<and> BlockHash example_evidence = 0x99 \<and> SignalRoot example_evidence = 0x52"
proof -
  have fetched:
    "BlockByHash (L2 (rpc example_builder)) (Hash example_deps (Header example_proof))
       = Inr example_block"
    by (simp add: example_defs)
  have nonempty: "length (Transactions example_block) \<noteq> 0"
    by (simp add: example_defs)
  have valid:
    "ValidateAnchorTx (anchorTxValidator example_builder) (Transactions example_block ! 0) = None"
    by (simp add: example_defs)
  have receipt:
    "GetAndValidateAnchorTxReceipt (anchorTxValidator example_builder)
       (Transactions example_block ! 0) = Inr [0x01]"
    by (simp add: example_defs)
  have mapped: "DegreeToCircuitsIdx example_deps (Degree example_proof) = Inr 3"
    by (simp add: example_defs)
  from C4_option_hashes [OF fetched nonempty valid receipt] mapped
  obtain ev where "ForSubmission example_deps example_builder example_proof = (Some ev, None)"
    and "MetaHash ev = ProofRequestOptions.MetaHash (Opts example_proof)"
    and "ParentHash ev = ProofRequestOptions.ParentHash (Opts example_proof)"
    and "BlockHash ev = ProofRequestOptions.BlockHash (Opts example_proof)"
    and "SignalRoot ev = ProofRequestOptions.SignalRoot (Opts example_proof)"
    by auto
  moreover have "Hash example_deps (Header example_proof) = 0x23"
    by (simp add: example_defs)
  ultimately show ?thesis
    using fetched example_run_dual by (simp add: example_proof_def)
qed

subsection \<open>Contest\<close>

text \<open>
  Claim C5. Whenever \<open>ForContest\<close> returns evidence, its \<open>Proof\<close> has length 0 and its
  \<open>Graffiti\<close> is the zero value of 32 bytes.
\<close>
theorem C5_contest_proof_graffiti:
  assumes "ForContest d b header l2SignalService event = (Some ev, err)"
  shows "length (Proof ev) = 0 \<and> Graffiti ev = 0"
proof -
  from ForContest_Some [OF assms] have "Proof ev = []" and "Graffiti ev = 0"
    by auto
  then show ?thesis by simp
qed

theorem C5_contest_proof_graffiti_witness:
  "ForContest example_deps example_builder example_header 0x1001 example_event
     = (Some example_contest_evidence, None)
   \<and> length (Proof example_contest_evidence) = 0
   \<and> Graffiti example_contest_evidence = 0"
  using C5_contest_proof_graffiti [OF example_run_contest] example_run_contest
  by simp

text \<open>
  Claim C6. The tier of a returned evidence is the tier of the input: evidence from
  \<open>ForContest\<close> has the \<open>Tier\<close> and the \<open>ParentHash\<close> of the event, evidence from
  \<open>ForSubmission\<close> has the \<open>Tier\<close> of the proof it was given.
\<close>
theorem C6_tier_passed_through:
  "(ForContest d b header l2SignalService event = (Some ev, err)
      \<longrightarrow> Tier ev = TaikoL1ClientTransitionProved.Tier event
        \<and> ParentHash ev = TaikoL1ClientTransitionProved.ParentHash event)
   \<and> (ForSubmission d b p = (Some ev', err') \<longrightarrow> Tier ev' = ProofWithHeader.Tier p)"
proof (intro conjI impI)
  assume "ForContest d b header l2SignalService event = (Some ev, err)"
  then show "Tier ev = TaikoL1ClientTransitionProved.Tier event"
    and "ParentHash ev = TaikoL1ClientTransitionProved.ParentHash event"
    by (auto dest: ForContest_Some)
next
  assume "ForSubmission d b p = (Some ev', err')"
  then show "Tier ev' = ProofWithHeader.Tier p"
    by (rule ForSubmission_fields)
qed

theorem C6_tier_passed_through_witness:
  "ForContest example_deps example_builder example_header 0x1001 example_event
     = (Some example_contest_evidence, None)
   \<and> Tier example_contest_evidence = 2 \<and> ParentHash example_contest_evidence = 0x48
   \<and> ForSubmission example_deps example_builder example_proof_sgx
       = (Some example_evidence_sgx, None)
   \<and> Tier example_evidence_sgx = 200"
proof -
  note both = C6_tier_passed_through
    [of example_deps example_builder example_header "0x1001" example_event
        example_contest_evidence None example_proof_sgx example_evidence_sgx None]
  have "Tier example_contest_evidence = TaikoL1ClientTransitionProved.Tier example_event"
    and "ParentHash example_contest_evidence
           = TaikoL1ClientTransitionProved.ParentHash example_event"
    and "Tier example_evidence_sgx = ProofWithHeader.Tier example_proof_sgx"
    using both example_run_contest example_run_sgx by blast+
  then show ?thesis
    using example_run_contest example_run_sgx
    by (simp add: example_event_def example_proof_sgx_def example_proof_def)
qed

text \<open>
  Claim C7, as stated: the \<open>MetaHash\<close> of a returned evidence is the one of the
  \<open>GetBlock\<close> query at the block identifier of the event. \<open>GetBlock\<close> takes a \<open>uint64\<close>,
  and line 108 passes \<open>event.BlockId.Uint64()\<close>: for the identifier \<open>2^64 + 42\<close> the query
  is made at 42, which is not the identifier, and the evidence carries the \<open>MetaHash\<close> of
  block 42.
\<close>
theorem C7_counterexample:
  "BlockId example_event_far = 2 ^ 64 + 42
   \<and> ForContest example_deps example_builder_far example_header 0x1001 example_event_far
       = (Some example_contest_evidence, None)
   \<and> Uint64 (BlockId example_event_far) = 42
   \<and> uint (42 :: 64 word) \<noteq> BlockId example_event_far
   \<and> GetBlock (TaikoL1 (rpc example_builder_far)) 42
       = Inr \<lparr> TaikoDataBlock.MetaHash = 0x4D, block_rest = [] \<rparr>
   \<and> MetaHash example_contest_evidence = 0x4D"
proof -
  have far: "BlockId example_event_far = 2 ^ 64 + 42"
    by (simp add: example_event_far_def)
  have key: "Uint64 (BlockId example_event_far) = 42"
    by (simp add: Uint64_def example_event_far_def)
  have run: "ForContest example_deps example_builder_far example_header 0x1001 example_event_far
               = (Some example_contest_evidence, None)"
    by (simp add: ForContest_def Uint64_def example_event_far_def example_builder_far_def
          example_defs)
  have not_id: "uint (42 :: 64 word) \<noteq> BlockId example_event_far"
    by (simp add: example_event_far_def)
  have info: "GetBlock (TaikoL1 (rpc example_builder_far)) 42
                = Inr \<lparr> TaikoDataBlock.MetaHash = 0x4D, block_rest = [] \<rparr>"
    by (simp add: example_builder_far_def example_defs)
  have meta: "MetaHash example_contest_evidence = 0x4D"
    by (simp add: example_contest_evidence_def)
  from far run key not_id info meta show ?thesis
    by blast
qed

text \<open>
  Claim C7, amended. Whenever \<open>ForContest\<close> returns evidence, the storage root query for
  the signal service at the block number of the event succeeded and its root is the
  \<open>SignalRoot\<close> of the evidence, and the \<open>BlockHash\<close> is the hash of the given header; and
  when the block identifier of the event is in the range of \<open>uint64\<close>, the \<open>GetBlock\<close> query
  at that very identifier succeeded and its \<open>MetaHash\<close> is the \<open>MetaHash\<close> of the evidence.
\<close>
theorem C7_contest_composition:
  assumes "ForContest d b header l2SignalService event = (Some ev, err)"
  shows "(\<exists>root. GetStorageRoot (rpc b) l2SignalService (BlockId event) = Inr root
            \<and> SignalRoot ev = root)
       \<and> BlockHash ev = Hash d header
       \<and> (0 \<le> BlockId event \<and> BlockId event < 2 ^ 64
            \<longrightarrow> (\<exists>key info. uint key = BlockId event
                  \<and> GetBlock (TaikoL1 (rpc b)) key = Inr info
                  \<and> MetaHash ev = TaikoDataBlock.MetaHash info))"
proof -
  from ForContest_Some [OF assms] obtain root info
    where stored: "GetStorageRoot (rpc b) l2SignalService (BlockId event) = Inr root"
    and queried: "GetBlock (TaikoL1 (rpc b)) (Uint64 (BlockId event)) = Inr info"
    and ev: "ev = \<lparr> MetaHash = TaikoDataBlock.MetaHash info,
                     ParentHash = TaikoL1ClientTransitionProved.ParentHash event,
                     BlockHash = Hash d header,
                     SignalRoot = root,
                     Graffiti = 0,
                     Tier = TaikoL1ClientTransitionProved.Tier event,
                     Proof = [] \<rparr>"
    by blast
  from ev have fields: "MetaHash ev = TaikoDataBlock.MetaHash info"
    "BlockHash ev = Hash d header" "SignalRoot ev = root"
    by simp_all
  have "\<exists>key info. uint key = BlockId event
          \<and> GetBlock (TaikoL1 (rpc b)) key = Inr info
          \<and> MetaHash ev = TaikoDataBlock.MetaHash info"
    if "0 \<le> BlockId event" and "BlockId event < 2 ^ 64"
  proof -
    from that have "uint (Uint64 (BlockId event)) = BlockId event"
      by (rule Uint64_in_range)
    with queried fields(1) show ?thesis
      by blast
  qed
  with stored fields show ?thesis
    by blast
qed

text \<open>The contest example of the specification: event with parent hash \<open>0x48\<close>, tier 2
  and block 42, header hash \<open>0x23\<close>, storage root \<open>0x52\<close>, \<open>MetaHash\<close> \<open>0x4D\<close>.\<close>
theorem C7_contest_composition_witness:
  "ForContest example_deps example_builder example_header 0x1001 example_event
     = (Some example_contest_evidence, None)
   \<and> 0 \<le> BlockId example_event \<and> BlockId example_event < 2 ^ 64
   \<and> GetStorageRoot (rpc example_builder) 0x1001 (BlockId example_event) = Inr 0x52
   \<and> uint (42 :: 64 word) = BlockId example_event
   \<and> GetBlock (TaikoL1 (rpc example_builder)) 42
       = Inr \<lparr> TaikoDataBlock.MetaHash = 0x4D, block_rest = [] \<rparr>
   \<and> Hash example_deps example_header = 0x23
   \<and> MetaHash example_contest_evidence = 0x4D
   \<and> BlockHash example_contest_evidence = 0x23
   \<and> SignalRoot example_contest_evidence = 0x52"
proof -
  have range: "0 \<le> BlockId example_event" "BlockId example_event < 2 ^ 64"
    by (simp_all add: example_event_def)
  have id: "uint (42 :: 64 word) = BlockId example_event"
    by (simp add: example_event_def)
  have root: "GetStorageRoot (rpc example_builder) 0x1001 (BlockId example_event) = Inr 0x52"
    by (simp add: example_defs)
  have info: "GetBlock (TaikoL1 (rpc example_builder)) 42
                = Inr \<lparr> TaikoDataBlock.MetaHash = 0x4D, block_rest = [] \<rparr>"
    by (simp add: example_defs)
  have hash: "Hash example_deps example_header = 0x23"
    by (simp add: example_defs)
  note composed = C7_contest_composition [OF example_run_contest]
  from composed root hash
  have "SignalRoot example_contest_evidence = 0x52"
    and "BlockHash example_contest_evidence = 0x23"
    by auto
  moreover
  from composed range obtain key info'
    where key: "uint key = BlockId example_event"
      and at_key: "GetBlock (TaikoL1 (rpc example_builder)) key = Inr info'"
      and meta: "MetaHash example_contest_evidence = TaikoDataBlock.MetaHash info'"
    by blast
  have "MetaHash example_contest_evidence = 0x4D"
  proof -
    from key id have "uint key = uint (42 :: 64 word)"
      by simp
    then have "key = 42"
      by (rule word_uint_eqI)
    with at_key info have "info' = \<lparr> TaikoDataBlock.MetaHash = 0x4D, block_rest = [] \<rparr>"
      by simp
    with meta show ?thesis
      by simp
  qed
  ultimately show ?thesis
    using example_run_contest range id root info hash by simp
qed

subsection \<open>Evidence or error, never both\<close>

text \<open>
  Claim C8. Each of \<open>ForSubmission\<close> and \<open>ForContest\<close> returns either evidence and no
  error, or an error and no evidence: at every \<open>return\<close> with an error (block lookup,
  empty block, anchor validation, receipt validation, degree mapping, storage root
  query, \<open>GetBlock\<close> query) the evidence is \<open>nil\<close>.
\<close>
theorem C8_evidence_or_error:
  "((\<exists>ev. ForSubmission d b p = (Some ev, None))
      \<or> (\<exists>e. ForSubmission d b p = (None, Some e)))
   \<and> ((\<exists>ev. ForContest d b header l2SignalService event = (Some ev, None))
      \<or> (\<exists>e. ForContest d b header l2SignalService event = (None, Some e)))"
proof
  show "(\<exists>ev. ForSubmission d b p = (Some ev, None))
      \<or> (\<exists>e. ForSubmission d b p = (None, Some e))"
  proof (cases "fst (ForSubmission d b p)")
    case None
    then show ?thesis
      by (auto simp: ForSubmission_def Let_def split: sum.splits option.splits if_splits)
  next
    case (Some ev)
    then obtain err where "ForSubmission d b p = (Some ev, err)"
      by (cases "ForSubmission d b p") simp
    with ForSubmission_fields(7) [OF this] show ?thesis
      by simp
  qed
next
  show "(\<exists>ev. ForContest d b header l2SignalService event = (Some ev, None))
      \<or> (\<exists>e. ForContest d b header l2SignalService event = (None, Some e))"
    by (auto simp: ForContest_def split: sum.splits)
qed

text \<open>The error of each exit, on the sample chain: an unknown header hash, the empty
  block, a degree without circuit, and an event for a block the chain does not have.\<close>
lemma example_error_exits:
  "ForSubmission example_deps example_builder
     (example_proof \<lparr> Header := \<lparr> Header.ParentHash = 0x12, header_rest = [] \<rparr> \<rparr>)
     = (None, Some (FailedToGetL2Block 0x25 ''not found''))"
  "ForSubmission example_deps example_builder_empty example_proof
     = (None, Some (InvalidBlockWithoutAnchor 42))"
  "ForSubmission example_deps (example_builder \<lparr> anchorTxValidator :=
        example_validator \<lparr> ValidateAnchorTx := (\<lambda>tx. Some ''invalid anchor'') \<rparr> \<rparr>) example_proof
     = (None, Some (InvalidAnchorTransaction ''invalid anchor''))"
  "ForSubmission example_deps (example_builder \<lparr> anchorTxValidator :=
        example_validator \<lparr> GetAndValidateAnchorTxReceipt := (\<lambda>tx. Inl ''receipt not found'') \<rparr> \<rparr>)
        example_proof
     = (None, Some (FailedToFetchAnchorReceipt ''receipt not found''))"
  "ForSubmission example_deps example_builder example_proof_unmapped
     = (None, Some (DegreeToCircuitsIdxError ''invalid degree''))"
  "ForContest example_deps example_builder example_header 0x1001 (example_event \<lparr> BlockId := 43 \<rparr>)
     = (None, Some (FailedToGetStorageRoot ''missing trie node''))"
  "ForContest example_deps
     (example_builder \<lparr> rpc := example_client \<lparr> GetStorageRoot := (\<lambda>a n. Inr 0x52) \<rparr> \<rparr>)
     example_header 0x1001 (example_event \<lparr> BlockId := 43 \<rparr>)
     = (None, Some (GetBlockError ''block not proposed''))"
  by (simp_all add: ForSubmission_def ForContest_def Uint64_def uint16ToBytes_def example_defs)

subsection \<open>The graffiti of the builder\<close>

text \<open>
  Claim C9. \<open>NewBuilder\<close> sets the graffiti of the builder to \<open>StringToBytes32\<close> of the
  string it is given; every evidence that \<open>ForSubmission\<close> returns carries the graffiti of
  the builder it was called on; and two calls on one builder, on any two inputs and
  whatever the clients answer at the time of each call, carry the same graffiti. The
  methods only read the builder: none of them assigns to its fields.
\<close>
theorem C9_graffiti_fixed:
  "graffiti (NewBuilder d cli validator g) = StringToBytes32 d g
   \<and> (ForSubmission d1 (NewBuilder d cli validator g) p1 = (Some ev1, err1)
        \<longrightarrow> Graffiti ev1 = StringToBytes32 d g)
   \<and> (ForSubmission d1 b p1 = (Some ev1, err1)
        \<longrightarrow> ForSubmission d2 (b \<lparr> rpc := cli2, anchorTxValidator := validator2 \<rparr>) p2
              = (Some ev2, err2)
        \<longrightarrow> Graffiti ev1 = graffiti b \<and> Graffiti ev2 = graffiti b)"
proof (intro conjI impI)
  show built: "graffiti (NewBuilder d cli validator g) = StringToBytes32 d g"
    by (simp add: NewBuilder_def)
  {
    assume "ForSubmission d1 (NewBuilder d cli validator g) p1 = (Some ev1, err1)"
    then have "Graffiti ev1 = graffiti (NewBuilder d cli validator g)"
      by (rule ForSubmission_fields)
    with built show "Graffiti ev1 = StringToBytes32 d g"
      by simp
  }
  {
    assume "ForSubmission d1 b p1 = (Some ev1, err1)"
    then show "Graffiti ev1 = graffiti b"
      by (rule ForSubmission_fields)
  }
  {
    assume "ForSubmission d2 (b \<lparr> rpc := cli2, anchorTxValidator := validator2 \<rparr>) p2
              = (Some ev2, err2)"
    then have "Graffiti ev2 = graffiti (b \<lparr> rpc := cli2, anchorTxValidator := validator2 \<rparr>)"
      by (rule ForSubmission_fields)
    then show "Graffiti ev2 = graffiti b"
      by simp
  }
qed

text \<open>A builder made with the graffiti "taiko", called on the dual-tier proof and, with
  the anchor validator replaced by one that accepts anything, on the tier-200 proof.\<close>
theorem C9_graffiti_fixed_witness:
  "ForSubmission example_deps
     (NewBuilder example_deps example_client example_validator ''taiko'') example_proof
     = (Some example_evidence, None)
   \<and> ForSubmission example_deps
       (NewBuilder example_deps example_client example_validator ''taiko''
          \<lparr> rpc := example_client,
            anchorTxValidator := \<lparr> ValidateAnchorTx = (\<lambda>tx. None),
                                   GetAndValidateAnchorTxReceipt = (\<lambda>tx. Inr []) \<rparr> \<rparr>)
       example_proof_sgx
     = (Some example_evidence_sgx, None)
   \<and> StringToBytes32 example_deps ''taiko'' = example_graffiti
   \<and> Graffiti example_evidence = example_graffiti
   \<and> Graffiti example_evidence_sgx = example_graffiti"
proof -
  let ?b = "NewBuilder example_deps example_client example_validator ''taiko''"
  let ?v = "\<lparr> ValidateAnchorTx = (\<lambda>tx. None), GetAndValidateAnchorTxReceipt = (\<lambda>tx. Inr []) \<rparr>"
  have first: "ForSubmission example_deps ?b example_proof = (Some example_evidence, None)"
    using example_run_dual by (simp add: example_builder_def)
  have second:
    "ForSubmission example_deps (?b \<lparr> rpc := example_client, anchorTxValidator := ?v \<rparr>)
       example_proof_sgx = (Some example_evidence_sgx, None)"
    by (simp add: ForSubmission_def uint16ToBytes_def example_defs)
  have conv: "StringToBytes32 example_deps ''taiko'' = example_graffiti"
    by (simp add: example_defs)
  note fixed = C9_graffiti_fixed
    [where d = example_deps and cli = example_client and validator = example_validator
       and g = "''taiko''" and ?d1.0 = example_deps and ?p1.0 = example_proof
       and ?ev1.0 = example_evidence and ?err1.0 = None and b = ?b
       and ?d2.0 = example_deps and ?cli2.0 = example_client and ?validator2.0 = ?v
       and ?p2.0 = example_proof_sgx and ?ev2.0 = example_evidence_sgx and ?err2.0 = None]
  from fixed first second
  have "Graffiti example_evidence = StringToBytes32 example_deps ''taiko''"
    and "Graffiti example_evidence_sgx = graffiti ?b"
    and "graffiti ?b = StringToBytes32 example_deps ''taiko''"
    by blast+
  then show ?thesis
    using first second conv by simp
qed

subsection \<open>Submission: the degree outside the dual tier\<close>

text \<open>
  Claim C10. For an input whose tier is not the dual tier, the result of \<open>ForSubmission\<close>
  does not depend on the degree: changing the degree of the input, or the degree mapping
  itself, leaves the result the same, and the result is never the error of the degree
  mapping.
\<close>
theorem C10_degree_irrelevant:
  assumes "ProofWithHeader.Tier p \<noteq> TierSgxAndPseZkevmID d"
  shows "ForSubmission d b (p \<lparr> Degree := degree \<rparr>) = ForSubmission d b p
       \<and> ForSubmission (d \<lparr> DegreeToCircuitsIdx := mapping \<rparr>) b p = ForSubmission d b p
       \<and> (\<forall>e. snd (ForSubmission d b p) \<noteq> Some (DegreeToCircuitsIdxError e))"
  using assms
  by (auto simp: ForSubmission_def Let_def split: sum.splits option.splits)

text \<open>Tier 200 at degree 99, which has no circuit, and at degree 18: the same evidence.\<close>
theorem C10_degree_irrelevant_witness:
  "ProofWithHeader.Tier example_proof_sgx \<noteq> TierSgxAndPseZkevmID example_deps
   \<and> DegreeToCircuitsIdx example_deps (Degree example_proof_sgx) = Inl ''invalid degree''
   \<and> DegreeToCircuitsIdx example_deps 18 = Inr 3
   \<and> ForSubmission example_deps example_builder (example_proof_sgx \<lparr> Degree := 18 \<rparr>)
       = (Some example_evidence_sgx, None)
   \<and> ForSubmission example_deps example_builder example_proof_sgx
       = (Some example_evidence_sgx, None)"
proof -
  have other: "ProofWithHeader.Tier example_proof_sgx \<noteq> TierSgxAndPseZkevmID example_deps"
    by (simp add: example_defs)
  have unmapped:
    "DegreeToCircuitsIdx example_deps (Degree example_proof_sgx) = Inl ''invalid degree''"
    and mapped: "DegreeToCircuitsIdx example_deps 18 = Inr 3"
    by (simp_all add: example_defs)
  from C10_degree_irrelevant [OF other, of example_builder 18]
  have "ForSubmission example_deps example_builder (example_proof_sgx \<lparr> Degree := 18 \<rparr>)
          = ForSubmission example_deps example_builder example_proof_sgx"
    by simp
  then show ?thesis
    using other unmapped mapped example_run_sgx by simp
qed

end
